theory Spec2Isabelle
  imports Main
begin

section \<open>Python values, dictionaries and exceptions\<close>

text \<open>
  The wrapper class \<^verbatim>\<open>Astromatic\<close> of \<^verbatim>\<open>astromatic_wrapper/api.py\<close> is modelled as
  Python 3 runs it: a \<^verbatim>\<open>dict\<close> keeps insertion order, a pipe that was not opened in
  text mode yields \<^verbatim>\<open>bytes\<close> lines, \<^verbatim>\<open>map\<close> yields a lazy iterator, and a wrongly
  typed operand raises \<^verbatim>\<open>TypeError\<close>.

  A configuration value is what the command line serialisation distinguishes: a
  boolean, a string, or something else.
\<close>

datatype pyval = PNone | PBool bool | PInt int | PStr string | PList "string list"

text \<open>A \<^verbatim>\<open>dict\<close> keeps insertion order: an association list with distinct keys.\<close>

type_synonym pydict = "(string \<times> pyval) list"

definition has_key :: "pydict \<Rightarrow> string \<Rightarrow> bool" where
  "has_key d k = (k \<in> set (map fst d))"

text \<open>\<^verbatim>\<open>d[k] = v\<close>: an existing key keeps its position, a new key goes last.\<close>

fun dict_set :: "('k \<times> 'v) list \<Rightarrow> 'k \<Rightarrow> 'v \<Rightarrow> ('k \<times> 'v) list" where
  "dict_set [] k v = [(k, v)]"
| "dict_set ((k', v') # d) k v =
     (if k' = k then (k, v) # d else (k', v') # dict_set d k v)"

text \<open>
  Every exception the modelled code can raise. \<open>AstromaticError\<close> is the module's own
  exception class and carries its message; the others are Python's or the VOTable
  parser's.
\<close>

datatype error =
    AstromaticError string
  | KeyError
  | TypeError
  | AttributeError
  | IndexError
  | IOError
  | OSError
  | VOTableError
  | UnboundLocalError

section \<open>Strings\<close>

definition lower_char :: "char \<Rightarrow> char" where
  "lower_char c =
     (case map_of (zip ''ABCDEFGHIJKLMNOPQRSTUVWXYZ'' ''abcdefghijklmnopqrstuvwxyz'') c of
        None \<Rightarrow> c | Some d \<Rightarrow> d)"

definition upper_char :: "char \<Rightarrow> char" where
  "upper_char c =
     (case map_of (zip ''abcdefghijklmnopqrstuvwxyz'' ''ABCDEFGHIJKLMNOPQRSTUVWXYZ'') c of
        None \<Rightarrow> c | Some d \<Rightarrow> d)"

definition lower :: "string \<Rightarrow> string" where
  "lower s = map lower_char s"

definition upper :: "string \<Rightarrow> string" where
  "upper s = map upper_char s"

text \<open>\<^verbatim>\<open>s.startswith(p)\<close>\<close>

fun startswith :: "string \<Rightarrow> string \<Rightarrow> bool" where
  "startswith s [] = True"
| "startswith [] (p # ps) = False"
| "startswith (c # cs) (p # ps) = (c = p \<and> startswith cs ps)"

text \<open>\<^verbatim>\<open>sub in s\<close>\<close>

fun contains :: "string \<Rightarrow> string \<Rightarrow> bool" where
  "contains sub [] = (sub = [])"
| "contains sub (c # cs) = (startswith (c # cs) sub \<or> contains sub cs)"

text \<open>
  \<^verbatim>\<open>s.replace(old, new)\<close>: every non-overlapping occurrence, left to right; an empty
  \<open>old\<close> matches before every character and at the end.
\<close>

fun replace :: "string \<Rightarrow> string \<Rightarrow> string \<Rightarrow> string" where
  "replace old new [] = (if old = [] then new else [])"
| "replace old new (c # cs) =
     (if old = [] then new @ c # replace old new cs
      else if startswith (c # cs) old
        then new @ replace old new (drop (length old) (c # cs))
      else c # replace old new cs)"

text \<open>\<^verbatim>\<open>sep.join(xs)\<close>\<close>

fun join :: "string \<Rightarrow> string list \<Rightarrow> string" where
  "join sep [] = []"
| "join sep [x] = x"
| "join sep (x # y # ys) = x @ sep @ join sep (y # ys)"

text \<open>\<^verbatim>\<open>os.path.join(a, b)\<close> of \<^verbatim>\<open>posixpath\<close>, for two components.\<close>

definition os_path_join :: "string \<Rightarrow> string \<Rightarrow> string" where
  "os_path_join a b =
     (if startswith b ''/'' then b
      else if a = [] \<or> last a = CHR ''/'' then a @ b
      else a @ ''/'' @ b)"

text \<open>\<^verbatim>\<open>str(n)\<close> for an integer.\<close>

definition digit_char :: "nat \<Rightarrow> char" where
  "digit_char d = ''0123456789'' ! d"

fun str_nat :: "nat \<Rightarrow> string" where
  "str_nat n = (if n < 10 then [digit_char n] else str_nat (n div 10) @ [digit_char (n mod 10)])"

declare str_nat.simps [simp del]

definition str_int :: "int \<Rightarrow> string" where
  "str_int i = (if i < 0 then CHR ''-'' # str_nat (nat (- i)) else str_nat (nat i))"

text \<open>
  \<^verbatim>\<open>s.split()\<close>: the maximal runs of characters that are not white space. \<open>acc\<close> is
  the run being read.
\<close>

definition is_space :: "char \<Rightarrow> bool" where
  "is_space c = (c \<in> set [CHR '' '', CHR 0x09, CHR ''\<newline>'', CHR 0x0B, CHR 0x0C, CHR 0x0D])"

fun split_acc :: "string \<Rightarrow> string \<Rightarrow> string list" where
  "split_acc acc [] = (if acc = [] then [] else [acc])"
| "split_acc acc (c # cs) =
     (if is_space c then (if acc = [] then split_acc [] cs else acc # split_acc [] cs)
      else split_acc (acc @ [c]) cs)"

definition split :: "string \<Rightarrow> string list" where
  "split s = split_acc [] s"

text \<open>
  Text is either \<^verbatim>\<open>str\<close> or \<^verbatim>\<open>bytes\<close>. The two never compare equal, and
  \<^verbatim>\<open>lower\<close> and \<^verbatim>\<open>split\<close> keep the kind of their argument.
\<close>

datatype pytext = Str string | Bytes string

fun lower_text :: "pytext \<Rightarrow> pytext" where
  "lower_text (Str s) = Str (lower s)"
| "lower_text (Bytes b) = Bytes (lower b)"

fun split_text :: "pytext \<Rightarrow> pytext list" where
  "split_text (Str s) = map Str (split s)"
| "split_text (Bytes b) = map Bytes (split b)"

text \<open>\<^verbatim>\<open>'{0}'.format(t)\<close>: a \<^verbatim>\<open>str\<close> as it is, \<^verbatim>\<open>bytes\<close> as their literal (escapes aside).\<close>

fun format_text :: "pytext \<Rightarrow> string" where
  "format_text (Str s) = s"
| "format_text (Bytes b) = ''b'' @ [CHR 0x27] @ b @ [CHR 0x27]"

section \<open>The wrapper instance and the world it acts on\<close>

text \<open>The module-level table \<^verbatim>\<open>codes\<close>: tool identity to default executable.\<close>

definition codes :: "(string \<times> string) list" where
  "codes = [(''PSFEx'', ''psfex''), (''SCAMP'', ''scamp''),
            (''SExtractor'', ''sex''), (''SWarp'', ''swarp'')]"

text \<open>
  Dictionaries passed as \<^verbatim>\<open>config\<close> are objects: the instance and the keyword
  arguments hold a reference, and the object lives in the heap of the world.
\<close>

type_synonym addr = nat

type_synonym filesystem = "string \<Rightarrow> string list option"

record world =
  files :: filesystem
  heap :: "addr \<Rightarrow> pydict"
  warned :: "string list"
  logged :: "string list"
  spawned :: "string list"

text \<open>
  An instance as \<^verbatim>\<open>__init__\<close> leaves it: the five attributes it always sets, and the
  two optional ones that the build reads when a caller passed them as extra keyword
  arguments (\<^verbatim>\<open>setattr\<close>).
\<close>

record astromatic =
  code :: string
  temp_path :: "string option"
  config :: addr
  config_file :: "string option"
  store_output :: bool
  cmd :: "string option"
  params :: "string list option"

text \<open>
  The default \<^verbatim>\<open>config={}\<close> of \<^verbatim>\<open>__init__\<close> is one dictionary object, created when
  the function is defined and shared by every call that omits the argument.
\<close>

definition default_config :: addr where
  "default_config = 0"

definition init ::
  "string \<Rightarrow> string option \<Rightarrow> addr option \<Rightarrow> string option \<Rightarrow> bool \<Rightarrow>
   string option \<Rightarrow> string list option \<Rightarrow> world \<Rightarrow> astromatic \<times> world" where
  "init c tp cfg cf so extra_cmd extra_params w =
     (\<lparr>code = c, temp_path = tp,
       config = (case cfg of None \<Rightarrow> default_config | Some a \<Rightarrow> a),
       config_file = cf, store_output = so, cmd = extra_cmd, params = extra_params\<rparr>,
      if c \<in> set (map fst codes) then w
      else w\<lparr>warned := warned w @
        [CHR 0x27 # ''{0} not in Astromatic codes, you will need to specify a 'cmd' to run'']\<rparr>)"

text \<open>
  Keyword arguments of a call (\<^verbatim>\<open>**kwargs\<close>): \<open>None\<close> is an absent key. The value of
  \<^verbatim>\<open>temp_path\<close> and \<^verbatim>\<open>config_file\<close> may itself be Python's \<^verbatim>\<open>None\<close>.
\<close>

record kwargs =
  kw_code :: "string option"
  kw_temp_path :: "string option option"
  kw_config :: "addr option"
  kw_config_file :: "string option option"
  kw_store_output :: "bool option"
  kw_cmd :: "string option"
  kw_params :: "string list option"

definition no_kwargs :: kwargs where
  "no_kwargs = \<lparr>kw_code = None, kw_temp_path = None, kw_config = None,
     kw_config_file = None, kw_store_output = None, kw_cmd = None, kw_params = None\<rparr>"

text \<open>\<^verbatim>\<open>vars(self)\<close>\<close>

definition vars_of :: "astromatic \<Rightarrow> kwargs" where
  "vars_of self =
     \<lparr>kw_code = Some (code self), kw_temp_path = Some (temp_path self),
      kw_config = Some (config self), kw_config_file = Some (config_file self),
      kw_store_output = Some (store_output self), kw_cmd = cmd self,
      kw_params = params self\<rparr>"

datatype filenames = Single string | Many "string list"

fun as_list :: "filenames \<Rightarrow> string list" where
  "as_list (Single f) = [f]"
| "as_list (Many fs) = fs"

section \<open>\<^verbatim>\<open>Astromatic.build_cmd\<close>\<close>

text \<open>Lines 331-333: every attribute that the call did not pass is taken from the instance.\<close>

definition or_attr :: "'a option \<Rightarrow> 'a option \<Rightarrow> 'a option" where
  "or_attr given attr = (case given of None \<Rightarrow> attr | Some v \<Rightarrow> Some v)"

definition update_kwargs :: "astromatic \<Rightarrow> kwargs \<Rightarrow> kwargs" where
  "update_kwargs self kw =
     \<lparr>kw_code = or_attr (kw_code kw) (kw_code (vars_of self)),
      kw_temp_path = or_attr (kw_temp_path kw) (kw_temp_path (vars_of self)),
      kw_config = or_attr (kw_config kw) (kw_config (vars_of self)),
      kw_config_file = or_attr (kw_config_file kw) (kw_config_file (vars_of self)),
      kw_store_output = or_attr (kw_store_output kw) (kw_store_output (vars_of self)),
      kw_cmd = or_attr (kw_cmd kw) (kw_cmd (vars_of self)),
      kw_params = or_attr (kw_params kw) (kw_params (vars_of self))\<rparr>"

definition warn :: "string \<Rightarrow> world \<Rightarrow> world" where
  "warn msg w = w\<lparr>warned := warned w @ [msg]\<rparr>"

definition msg_multiple_params :: string where
  "msg_multiple_params = ''Multiple parameter files specified, using 'params'' @ [CHR 0x27]"

definition msg_need_temp_path :: string where
  "msg_need_temp_path =
     ''You must either supply a 'PARAMETERS_NAME' in 'config' or '' @
     ''a 'temp_path' to store the temporary parameters file''"

definition msg_need_params :: string where
  "msg_need_params =
     ''To run SExtractor yo must either supply a 'params' list of parameters '' @
     ''or a config keyword 'PARAMETERS_NAME' that points to a parameters file''"

definition msg_need_code :: string where
  "msg_need_code =
     ''You must either supply a valid astromatic 'code' name or '' @ ''a 'cmd' to run''"

text \<open>
  Lines 337-354, on the merged keyword arguments. \<open>can_write\<close> tells whether
  \<^verbatim>\<open>open(path, 'w')\<close> succeeds. The generated file holds one line per parameter.
\<close>

definition sex_params ::
  "(string \<Rightarrow> bool) \<Rightarrow> kwargs \<Rightarrow> world \<Rightarrow> (error + unit) \<times> world" where
  "sex_params can_write kwargs w =
     (case kw_code kwargs of
        None \<Rightarrow> (Inl KeyError, w)
      | Some c \<Rightarrow>
          if c = ''SExtractor'' then
            (case kw_params kwargs of
               Some ps \<Rightarrow>
                 (case kw_config kwargs of
                    None \<Rightarrow> (Inl KeyError, w)
                  | Some a \<Rightarrow>
                      let w1 = (if has_key (heap w a) ''PARAMETERS_NAME''
                                then warn msg_multiple_params w else w)
                      in (case kw_temp_path kwargs of
                            None \<Rightarrow> (Inl (AstromaticError msg_need_temp_path), w1)
                          | Some None \<Rightarrow> (Inl TypeError, w1)
                          | Some (Some t) \<Rightarrow>
                              let param_name = os_path_join t ''sex.param'' in
                              if \<not> can_write param_name then (Inl IOError, w1)
                              else
                                (Inr (),
                                 w1\<lparr>files := (files w1)
                                       (param_name \<mapsto> map (\<lambda>p. p @ ''\<newline>'') ps),
                                    heap := (heap w1)
                                       (a := dict_set (heap w1 a) ''PARAMETERS_NAME''
                                               (PStr param_name))\<rparr>)))
             | None \<Rightarrow>
                 (case kw_config kwargs of
                    None \<Rightarrow> (Inl KeyError, w)
                  | Some a \<Rightarrow>
                      if \<not> has_key (heap w a) ''PARAMETERS_NAME''
                      then (Inl (AstromaticError msg_need_params), w)
                      else (Inr (), w)))
          else (Inr (), w))"

text \<open>Lines 356-365: the executable, followed by one space.\<close>

definition resolve_cmd :: "kwargs \<Rightarrow> error + string" where
  "resolve_cmd kwargs =
     (case (case kw_cmd kwargs of
              None \<Rightarrow>
                (case kw_code kwargs of
                   None \<Rightarrow> Inl KeyError
                 | Some c \<Rightarrow>
                     (case map_of codes c of
                        None \<Rightarrow> Inl (AstromaticError msg_need_code)
                      | Some d \<Rightarrow> Inr d))
            | Some d \<Rightarrow> Inr d) of
        Inl e \<Rightarrow> Inl e
      | Inr d \<Rightarrow>
          if d = [] then Inl IndexError
          else Inr (if last d \<noteq> CHR '' '' then d @ '' '' else d))"

text \<open>Lines 366-370: the file names and the optional \<^verbatim>\<open>-c config_file\<close>.\<close>

definition cmd_head :: "string \<Rightarrow> string list \<Rightarrow> string option \<Rightarrow> string" where
  "cmd_head exe fns cf =
     exe @ join '' '' fns @ (case cf of None \<Rightarrow> [] | Some f \<Rightarrow> '' -c '' @ f)"

text \<open>
  Lines 372-380: one \<^verbatim>\<open>-KEY value\<close> per entry, in the order of the dictionary. A value
  that is neither a boolean nor a string cannot be concatenated to the command.
\<close>

fun flag_value :: "pyval \<Rightarrow> error + string" where
  "flag_value (PBool b) = Inr (if b then ''Y'' else ''N'')"
| "flag_value (PStr s) = Inr s"
| "flag_value v = Inl TypeError"

fun add_flags :: "string \<Rightarrow> pydict \<Rightarrow> error + string" where
  "add_flags c [] = Inr c"
| "add_flags c ((param, v) # rest) =
     (case flag_value v of
        Inl e \<Rightarrow> Inl e
      | Inr val \<Rightarrow> add_flags (c @ '' -'' @ param @ '' '' @ val) rest)"

definition build_cmd ::
  "(string \<Rightarrow> bool) \<Rightarrow> astromatic \<Rightarrow> filenames \<Rightarrow> kwargs \<Rightarrow> world \<Rightarrow>
   (error + string \<times> kwargs) \<times> world" where
  "build_cmd can_write self filenames kw w =
     (let fns = as_list filenames;
          kwargs = update_kwargs self kw
      in case sex_params can_write kwargs w of
           (Inl e, w1) \<Rightarrow> (Inl e, w1)
         | (Inr u, w1) \<Rightarrow>
             (case resolve_cmd kwargs of
                Inl e \<Rightarrow> (Inl e, w1)
              | Inr exe \<Rightarrow>
                  (case kw_config_file kwargs of
                     None \<Rightarrow> (Inl KeyError, w1)
                   | Some cf \<Rightarrow>
                       (case kw_config kwargs of
                          None \<Rightarrow> (Inl KeyError, w1)
                        | Some a \<Rightarrow>
                            (case add_flags (cmd_head exe fns cf) (heap w1 a) of
                               Inl e \<Rightarrow> (Inl e, w1)
                             | Inr s \<Rightarrow> (Inr (s, kwargs), w1))))))"

section \<open>The external world: processes and the VOTable parser\<close>

text \<open>
  A table of the third-party table library: rows of named cells, a cell being masked
  or holding a value, and the table's metadata.
\<close>

datatype cell = Masked | CStr string | CInt int

type_synonym row = "(string \<times> cell) list"

record table =
  rows :: "row list"
  meta :: "(string \<times> string) list"

text \<open>
  What the code reads from a parsed VOTable: the parameters of
  \<^verbatim>\<open>votable.resources[0].resources[0]\<close> (\<open>None\<close> when that resource does not exist)
  and the table whose identifier is \<^verbatim>\<open>Warnings\<close> (\<open>None\<close> when there is none).
\<close>

record votable =
  vo_params :: "(string \<times> string) list option"
  vo_warnings :: "table option"

text \<open>
  The collaborators are parameters of the model: \<open>proc\<close> runs a shell command on a file
  system and gives its return code, its output lines and the file system it leaves
  (\<open>None\<close> when the process cannot be spawned); \<open>can_write\<close> tells whether a path
  can be opened for writing; \<open>parse\<close> is \<^verbatim>\<open>parse(xml_name)\<close> and \<open>parse_masked\<close> is
  \<^verbatim>\<open>parse(xml_name, invalid='mask', pedantic=False)\<close> on the lines of the file, \<open>None\<close>
  when the parser raises.
\<close>

record env =
  proc :: "string \<Rightarrow> filesystem \<Rightarrow> (int \<times> string list \<times> filesystem) option"
  can_write :: "string \<Rightarrow> bool"
  parse :: "string list \<Rightarrow> votable option"
  parse_masked :: "string list \<Rightarrow> votable option"

section \<open>\<^verbatim>\<open>Astromatic._run_cmd\<close>\<close>

datatype status = Success | Error

text \<open>
  The result dictionary: \<open>None\<close> is an absent key. \<^verbatim>\<open>run_frames\<close> stores the key
  \<^verbatim>\<open>warnings\<close> even when its value is \<^verbatim>\<open>None\<close>, hence the two levels.
\<close>

record result =
  status :: status
  error_msg :: "pytext option"
  "output" :: "pytext list option"
  warnings :: "table option option"

definition new_result :: result where
  "new_result = \<lparr>status = Success, error_msg = None, output = None, warnings = None\<rparr>"

text \<open>
  Line 427: \<^verbatim>\<open>'error' in line.lower()\<close>. The needle is a \<^verbatim>\<open>str\<close>; looking for it in
  \<^verbatim>\<open>bytes\<close> raises \<^verbatim>\<open>TypeError\<close>.
\<close>

fun has_error :: "pytext \<Rightarrow> error + bool" where
  "has_error (Str s) = Inr (contains ''error'' (lower s))"
| "has_error (Bytes b) = Inl TypeError"

text \<open>Lines 426-430: the first line with an error ends the loop.\<close>

fun first_error :: "pytext list \<Rightarrow> error + pytext option" where
  "first_error [] = Inr None"
| "first_error (line # rest) =
     (case has_error line of
        Inl err \<Rightarrow> Inl err
      | Inr found \<Rightarrow> if found then Inr (Some line) else first_error rest)"

text \<open>Lines 438-440: the last parameter named \<^verbatim>\<open>Error_Msg\<close> stays.\<close>

definition read_error_msg :: "(string \<times> string) list \<Rightarrow> result \<Rightarrow> result" where
  "read_error_msg ps r =
     fold (\<lambda>(name, v) r'.
             if name = ''Error_Msg'' then r'\<lparr>error_msg := Some (Str v)\<rparr>
                    else r') ps r"

text \<open>
  Lines 418-440: the command is logged and run, either with its output captured
  (\<open>store_out\<close>) or streamed. The captured lines come from a pipe in binary mode
  (lines 422-424): they are \<^verbatim>\<open>bytes\<close>.
\<close>

definition run_process ::
  "env \<Rightarrow> string \<Rightarrow> bool \<Rightarrow> string option \<Rightarrow> world \<Rightarrow> (error + result) \<times> world" where
  "run_process e this_cmd store_out xml_name w =
     (let w0 = w\<lparr>logged := logged w @ [''cmd:\<newline>'' @ this_cmd @ ''\<newline>''],
                 spawned := spawned w @ [this_cmd]\<rparr>
      in case proc e this_cmd (files w0) of
           None \<Rightarrow> (Inl OSError, w0)
         | Some (rc, out, fs) \<Rightarrow>
             let w1 = w0\<lparr>files := fs\<rparr> in
             if store_out then
               (let lines = map Bytes out in
                case first_error lines of
                  Inl err \<Rightarrow> (Inl err, w1)
                | Inr None \<Rightarrow> (Inr (new_result\<lparr>output := Some lines\<rparr>), w1)
                | Inr (Some line) \<Rightarrow>
                    (Inr (new_result\<lparr>output := Some lines, status := Error,
                                     error_msg := Some line\<rparr>), w1))
             else if rc > 0 then
               (case xml_name of
                  None \<Rightarrow> (Inr (new_result\<lparr>status := Error\<rparr>), w1)
                | Some x \<Rightarrow>
                    (case files w1 x of
                       None \<Rightarrow> (Inl IOError, w1)
                     | Some content \<Rightarrow>
                         (case parse e content of
                            None \<Rightarrow> (Inl VOTableError, w1)
                          | Some vt \<Rightarrow>
                              (case vo_params vt of
                                 None \<Rightarrow> (Inl IndexError, w1)
                               | Some ps \<Rightarrow>
                                   (Inr (read_error_msg ps (new_result\<lparr>status := Error\<rparr>)),
                                    w1)))))
             else (Inr new_result, w1))"

text \<open>
  Lines 449-459: the report of SExtractor is rewritten in place without the lines
  that mention a FITS stream; of such a line only a closing \<^verbatim>\<open></DATA>\<close> is kept.
\<close>

definition keep_line :: "string \<Rightarrow> string list" where
  "keep_line line =
     (if \<not> contains ''<fits'' (lower line) then [line]
      else if contains ''</DATA>'' (upper line) then [''</DATA>\<newline>'']
      else [])"

definition strip_fits :: "env \<Rightarrow> string \<Rightarrow> world \<Rightarrow> (error + unit) \<times> world" where
  "strip_fits e x w =
     (case files w x of
        None \<Rightarrow> (Inl IOError, w)
      | Some all_lines \<Rightarrow>
          if \<not> can_write e x then (Inl IOError, w)
          else (Inr (), w\<lparr>files := (files w)(x \<mapsto> concat (map keep_line all_lines))\<rparr>))"

text \<open>\<^verbatim>\<open>table.filled(0)\<close>\<close>

definition filled :: "table \<Rightarrow> table" where
  "filled t =
     t\<lparr>rows := map (map (\<lambda>(k, c). (k, case c of Masked \<Rightarrow> CInt 0 | _ \<Rightarrow> c))) (rows t)\<rparr>"

text \<open>Line 448: the report of a frame has the frame in its name.\<close>

definition frame_xml :: "string option \<Rightarrow> string \<Rightarrow> string" where
  "frame_xml frame x =
     (case frame of None \<Rightarrow> x | Some f \<Rightarrow> replace ''.xml'' (''-'' @ f @ ''.xml'') x)"

text \<open>
  Lines 442-470: when a report is known it is parsed and its warnings are stored.
  Nothing catches what the file access, the parser or the table lookup raise.
\<close>

definition log_warnings ::
  "env \<Rightarrow> astromatic \<Rightarrow> string option \<Rightarrow> string option \<Rightarrow> result \<Rightarrow> world \<Rightarrow>
   (error + result) \<times> world" where
  "log_warnings e self xml_name frame r w =
     (case xml_name of
        None \<Rightarrow> (Inr r, w)
      | Some x0 \<Rightarrow>
          let x = frame_xml frame x0 in
          (case (if code self = ''SExtractor'' then strip_fits e x w else (Inr (), w)) of
             (Inl err, w1) \<Rightarrow> (Inl err, w1)
           | (Inr u, w1) \<Rightarrow>
               (case files w1 x of
                  None \<Rightarrow> (Inl IOError, w1)
                | Some content \<Rightarrow>
                    (case parse_masked e content of
                       None \<Rightarrow> (Inl VOTableError, w1)
                     | Some vt \<Rightarrow>
                         (case vo_warnings vt of
                            None \<Rightarrow> (Inl VOTableError, w1)
                          | Some t \<Rightarrow>
                              (Inr (r\<lparr>warnings := Some (Some
                                      ((filled t)\<lparr>meta :=
                                         dict_set (meta (filled t)) ''filename'' x\<rparr>))\<rparr>),
                               w1))))))"

text \<open>Lines 471-477.\<close>

definition msg_execution :: "string \<Rightarrow> pytext option \<Rightarrow> string" where
  "msg_execution c m =
     ''Error in '' @ [CHR 0x27] @ c @ [CHR 0x27] @ '' execution'' @
     (case m of None \<Rightarrow> [] | Some t \<Rightarrow> '': '' @ format_text t)"

definition run_cmd ::
  "env \<Rightarrow> astromatic \<Rightarrow> string \<Rightarrow> bool \<Rightarrow> string option \<Rightarrow> bool \<Rightarrow> string option \<Rightarrow>
   world \<Rightarrow> (error + result) \<times> world" where
  "run_cmd e self this_cmd store_out xml_name raise_error frame w =
     (case run_process e this_cmd store_out xml_name w of
        (Inl err, w1) \<Rightarrow> (Inl err, w1)
      | (Inr r, w1) \<Rightarrow>
          (case log_warnings e self xml_name frame r w1 of
             (Inl err, w2) \<Rightarrow> (Inl err, w2)
           | (Inr r2, w2) \<Rightarrow>
               if status r2 = Error \<and> raise_error
               then (Inl (AstromaticError (msg_execution (code self) (error_msg r2))), w2)
               else (Inr r2, w2)))"

section \<open>\<^verbatim>\<open>Astromatic.run_frames\<close>\<close>

text \<open>The truth value of a configuration value, as \<^verbatim>\<open>and\<close> tests it.\<close>

fun truthy :: "pyval \<Rightarrow> bool" where
  "truthy PNone = False"
| "truthy (PBool b) = b"
| "truthy (PInt i) = (i \<noteq> 0)"
| "truthy (PStr s) = (s \<noteq> [])"
| "truthy (PList xs) = (xs \<noteq> [])"

definition msg_frames :: string where
  "msg_frames =
     ''The code you have specified is not currently supported '' @
     ''using individual frames''"

text \<open>
  Lines 607-610: \<^verbatim>\<open>if img is not None: new_cmd = new_cmd.replace(img, img+frame_str)\<close>,
  for the flag image and the weight image read from the configuration.
\<close>

fun add_frame :: "pyval \<Rightarrow> string \<Rightarrow> string \<Rightarrow> error + string" where
  "add_frame PNone frame_str c = Inr c"
| "add_frame (PStr f) frame_str c = Inr (replace f (f @ frame_str) c)"
| "add_frame v frame_str c = Inl TypeError"

text \<open>Lines 611-613, for the report name read from the configuration.\<close>

fun add_frame_xml :: "pyval \<Rightarrow> string \<Rightarrow> string \<Rightarrow> error + string" where
  "add_frame_xml PNone f c = Inr c"
| "add_frame_xml (PStr x) f c = Inr (replace x (replace ''.xml'' (''-'' @ f @ ''.xml'') x) c)"
| "add_frame_xml v f c = Inl AttributeError"

text \<open>Lines 599-613: the command of one frame.\<close>

definition frame_cmd ::
  "string \<Rightarrow> string list \<Rightarrow> pyval \<Rightarrow> pyval \<Rightarrow> pyval \<Rightarrow> int \<Rightarrow> error + string" where
  "frame_cmd this_cmd fns flag_img weight_img xml_name frame =
     (let frame_str = ''['' @ str_int frame @ '']'';
          c1 = fold (\<lambda>f c. replace f (f @ frame_str) c) fns this_cmd
      in case add_frame flag_img frame_str c1 of
           Inl err \<Rightarrow> Inl err
         | Inr c2 \<Rightarrow>
             (case add_frame weight_img frame_str c2 of
                Inl err \<Rightarrow> Inl err
              | Inr c3 \<Rightarrow> add_frame_xml xml_name (str_int frame) c3))"

text \<open>\<^verbatim>\<open>warnings['frame'] = frame\<close> and \<^verbatim>\<open>vstack\<close> of two tables.\<close>

definition set_frame :: "int \<Rightarrow> table \<Rightarrow> table" where
  "set_frame frame t = t\<lparr>rows := map (\<lambda>r. dict_set r ''frame'' (CInt frame)) (rows t)\<rparr>"

definition vstack :: "table \<Rightarrow> table \<Rightarrow> table" where
  "vstack s t = \<lparr>rows = rows s @ rows t, meta = fold (\<lambda>(k, v) m. dict_set m k v) (meta t) (meta s)\<rparr>"

text \<open>Lines 617-625: the warnings of a frame join those of the frames before it.\<close>

definition combine :: "result \<Rightarrow> int \<Rightarrow> table option \<Rightarrow> error + table option" where
  "combine r frame all_warnings =
     (case warnings r of
        None \<Rightarrow> Inr all_warnings
      | Some None \<Rightarrow> Inl TypeError
      | Some (Some t) \<Rightarrow>
          if length (rows t) > 0 then
            (case all_warnings of
               None \<Rightarrow> Inr (Some (set_frame frame t))
             | Some s \<Rightarrow> Inr (Some (vstack s (set_frame frame t))))
          else Inr all_warnings)"

definition xml_path :: "pyval \<Rightarrow> string option" where
  "xml_path v = (case v of PStr x \<Rightarrow> Some x | _ \<Rightarrow> None)"

text \<open>Lines 598-625: the frames in the order given; the first exception ends the loop.\<close>

fun frames_loop ::
  "env \<Rightarrow> astromatic \<Rightarrow> string \<Rightarrow> string list \<Rightarrow> pyval \<Rightarrow> pyval \<Rightarrow> pyval \<Rightarrow> bool \<Rightarrow>
   int list \<Rightarrow> table option \<Rightarrow> world \<Rightarrow> (error + table option) \<times> world" where
  "frames_loop e self this_cmd fns flag_img weight_img xml_name raise_error [] all_warnings w =
     (Inr all_warnings, w)"
| "frames_loop e self this_cmd fns flag_img weight_img xml_name raise_error (frame # rest)
     all_warnings w =
     (case frame_cmd this_cmd fns flag_img weight_img xml_name frame of
        Inl err \<Rightarrow> (Inl err, w)
      | Inr new_cmd \<Rightarrow>
          (case run_cmd e self new_cmd False (xml_path xml_name) raise_error
                  (Some (str_int frame)) w of
             (Inl err, w1) \<Rightarrow> (Inl err, w1)
           | (Inr r, w1) \<Rightarrow>
               (case combine r frame all_warnings of
                  Inl err \<Rightarrow> (Inl err, w1)
                | Inr all_warnings' \<Rightarrow>
                    frames_loop e self this_cmd fns flag_img weight_img xml_name raise_error
                      rest all_warnings' w1)))"

text \<open>\<^verbatim>\<open>d[k] if k in d else None\<close>\<close>

definition get_or_none :: "pydict \<Rightarrow> string \<Rightarrow> pyval" where
  "get_or_none d k = (case map_of d k of None \<Rightarrow> PNone | Some v \<Rightarrow> v)"

text \<open>
  Lines 572-631. \<open>code_arg\<close> is the argument \<^verbatim>\<open>code\<close> (\<open>None\<close> by default). The result
  built at lines 627-630 holds the constant status \<^verbatim>\<open>'success'\<close>.
\<close>

definition run_frames ::
  "env \<Rightarrow> astromatic \<Rightarrow> filenames \<Rightarrow> string option \<Rightarrow> int list \<Rightarrow> bool \<Rightarrow> kwargs \<Rightarrow>
   world \<Rightarrow> (error + result) \<times> world" where
  "run_frames e self filenames code_arg frames raise_error kw w =
     (let c = (case code_arg of None \<Rightarrow> code self | Some c' \<Rightarrow> c');
          a = (case kw_config kw of None \<Rightarrow> config self | Some a' \<Rightarrow> a');
          cfg = heap w a
      in if c \<noteq> ''SExtractor'' \<and> c \<noteq> ''SWarp'' then (Inl (AstromaticError msg_frames), w)
         else
           let flag_img = (if c = ''SExtractor'' then get_or_none cfg ''FLAG_IMAGE'' else PNone);
               weight_img = (if c = ''SExtractor'' then get_or_none cfg ''WEIGHT_IMAGE'' else PNone);
               xml_name = (if has_key cfg ''WRITE_XML'' \<and> truthy (get_or_none cfg ''WRITE_XML'')
                              \<and> has_key cfg ''XML_NAME''
                           then get_or_none cfg ''XML_NAME'' else PNone)
           in case build_cmd (can_write e) self filenames
                     (kw\<lparr>kw_config := Some a, kw_code := Some c\<rparr>) w of
                (Inl err, w1) \<Rightarrow> (Inl err, w1)
              | (Inr (this_cmd, kwargs), w1) \<Rightarrow>
                  (case frames_loop e self this_cmd (as_list filenames) flag_img weight_img
                          xml_name raise_error frames None w1 of
                     (Inl err, w2) \<Rightarrow> (Inl err, w2)
                   | (Inr all_warnings, w2) \<Rightarrow>
                       (Inr \<lparr>status = Success, error_msg = None, output = None,
                             warnings = Some all_warnings\<rparr>, w2)))"

section \<open>\<^verbatim>\<open>Astromatic.get_version\<close>\<close>

definition msg_need_code_version :: string where
  "msg_need_code_version =
     ''You must either supply a valid astromatic 'code' name or a 'cmd'' @ [CHR 0x27]"

text \<open>Lines 653-660: the version query that the method assembles.\<close>

definition version_cmd :: "astromatic \<Rightarrow> string option \<Rightarrow> error + string" where
  "version_cmd self cmd_arg =
     (case (case cmd_arg of
              None \<Rightarrow>
                (case map_of codes (code self) of
                   None \<Rightarrow> Inl (AstromaticError msg_need_code_version)
                 | Some d \<Rightarrow> Inr d)
            | Some d \<Rightarrow> Inr d) of
        Inl err \<Rightarrow> Inl err
      | Inr d \<Rightarrow>
          if d = [] then Inl IndexError
          else Inr ((if last d \<noteq> CHR '' '' then d @ '' '' else d) @ ''-v''))"

text \<open>
  Lines 667-676. The output lines are \<^verbatim>\<open>bytes\<close> and \<^verbatim>\<open>line_split\<close> is a lazy
  \<^verbatim>\<open>map\<close> of their lowered words: the test of line 670 compares the \<^verbatim>\<open>str\<close>
  \<^verbatim>\<open>'version'\<close> with every word, and a \<^verbatim>\<open>map\<close> object has no \<^verbatim>\<open>index\<close> (line 671).
  When no line passes the test, \<^verbatim>\<open>version\<close> is unbound at line 676.
\<close>

fun find_version :: "pytext list \<Rightarrow> error + pytext \<times> pytext" where
  "find_version [] = Inl UnboundLocalError"
| "find_version (line # rest) =
     (let line_split = map lower_text (split_text line) in
      if Str ''version'' \<in> set line_split then Inl AttributeError
      else find_version rest)"

definition msg_unable :: "string \<Rightarrow> string" where
  "msg_unable c =
     ''Unable to run '' @ [CHR 0x27] @ c @ [CHR 0x27] @
     ''. Please check that it is installed correctly''"

text \<open>Lines 652-676. The process spawned at line 662 is the literal \<^verbatim>\<open>'sex'\<close>.\<close>

definition get_version ::
  "env \<Rightarrow> astromatic \<Rightarrow> string option \<Rightarrow> world \<Rightarrow> (error + pytext \<times> pytext) \<times> world" where
  "get_version e self cmd_arg w =
     (case version_cmd self cmd_arg of
        Inl err \<Rightarrow> (Inl err, w)
      | Inr c \<Rightarrow>
          let w1 = w\<lparr>spawned := spawned w @ [''sex'']\<rparr> in
          (case proc e ''sex'' (files w1) of
             None \<Rightarrow> (Inl (AstromaticError (msg_unable c)), w1)
           | Some (rc, out, fs) \<Rightarrow> (find_version (map Bytes out), w1\<lparr>files := fs\<rparr>)))"

section \<open>Reading the flags of a command back\<close>







section \<open>Example worlds\<close>

text \<open>
  Concrete collaborators on which the theorems below are evaluated: an empty world, a
  world holding one file, an environment whose every process ends with the same return
  code and output and whose parser gives the same answer for every file, and an
  instance built by \<^verbatim>\<open>Astromatic(code)\<close> with every default.
\<close>

definition world0 :: world where
  "world0 = \<lparr>files = (\<lambda>p. None), heap = (\<lambda>a. []), warned = [], logged = [], spawned = []\<rparr>"

definition world_file :: "string \<Rightarrow> string list \<Rightarrow> world" where
  "world_file p ls = world0\<lparr>files := (\<lambda>q. if q = p then Some ls else None)\<rparr>"

definition world_config :: "pydict \<Rightarrow> world" where
  "world_config d = world0\<lparr>heap := (\<lambda>a. d)\<rparr>"

definition fixed_env :: "int \<Rightarrow> string list \<Rightarrow> votable option \<Rightarrow> env" where
  "fixed_env rc out vt =
     \<lparr>proc = (\<lambda>c fs. Some (rc, out, fs)), can_write = (\<lambda>p. True),
      parse = (\<lambda>ls. vt), parse_masked = (\<lambda>ls. vt)\<rparr>"

definition empty_report :: votable where
  "empty_report = \<lparr>vo_params = Some [], vo_warnings = Some \<lparr>rows = [], meta = []\<rparr>\<rparr>"

definition new_instance :: "string \<Rightarrow> astromatic" where
  "new_instance c = fst (init c None None None False None None world0)"

text \<open>\<^verbatim>\<open>Astromatic('SExtractor', temp_path='/tmp')\<close>\<close>

definition sextractor_tmp :: astromatic where
  "sextractor_tmp = fst (init ''SExtractor'' (Some ''/tmp'') None None False None None world0)"

lemmas example_defs =
  world0_def world_file_def world_config_def fixed_env_def empty_report_def new_instance_def
  sextractor_tmp_def

lemmas build_defs =
  init_def default_config_def codes_def build_cmd_def update_kwargs_def vars_of_def or_attr_def
  sex_params_def no_kwargs_def has_key_def resolve_cmd_def cmd_head_def warn_def Let_def

lemmas run_defs =
  run_cmd_def run_process_def log_warnings_def new_result_def frame_xml_def filled_def
  run_frames_def frame_cmd_def combine_def xml_path_def get_or_none_def str_int_def
  str_nat.simps digit_char_def lower_def lower_char_def

section \<open>Facts about the process runner\<close>

lemma status_read_error_msg: "status (read_error_msg ps r) = status r"
  unfolding read_error_msg_def
  by (induction ps arbitrary: r) (auto split: prod.splits)

lemma output_read_error_msg: "output (read_error_msg ps r) = output r"
  unfolding read_error_msg_def
  by (induction ps arbitrary: r) (auto split: prod.splits)

lemma log_warnings_Inr:
  assumes "log_warnings e self xml_name frame r w = (Inr r2, w2)"
  shows "status r2 = status r \<and> error_msg r2 = error_msg r \<and> output r2 = output r"
  using assms
  by (auto simp: log_warnings_def Let_def split: option.splits prod.splits sum.splits if_splits)

lemma log_warnings_xml:
  assumes "log_warnings e self (Some x) frame r w = (Inr r2, w2)"
  shows "\<exists>content vt t. files w2 (frame_xml frame x) = Some content
           \<and> parse_masked e content = Some vt \<and> vo_warnings vt = Some t
           \<and> warnings r2 = Some (Some ((filled t)\<lparr>meta :=
                 dict_set (meta (filled t)) ''filename'' (frame_xml frame x)\<rparr>))"
  using assms
  by (auto simp: log_warnings_def Let_def split: option.splits prod.splits sum.splits if_splits)

lemma log_warnings_None: "log_warnings e self None frame r w = (Inr r, w)"
  by (simp add: log_warnings_def)

text \<open>
  Streamed mode: a record comes back with status \<^verbatim>\<open>error\<close> exactly when the return
  code is positive, and never with an \<^verbatim>\<open>output\<close> field.
\<close>

lemma run_process_streamed:
  assumes "run_process e this_cmd False xml_name w = (Inr r, w1)"
    and "proc e this_cmd (files w) = Some (rc, out, fs)"
  shows "status r = (if rc > 0 then Error else Success) \<and> output r = None"
  using assms
  by (auto simp: run_process_def Let_def new_result_def status_read_error_msg
        output_read_error_msg split: option.splits if_splits)

text \<open>
  The loop of lines 426-430 finds the first line with an error when the lines are
  \<^verbatim>\<open>str\<close>, and raises on the first line when they are \<^verbatim>\<open>bytes\<close>.
\<close>

lemma first_error_str:
  "first_error (map Str ls) = Inr (map_option Str (find (\<lambda>l. contains ''error'' (lower l)) ls))"
  by (induction ls) simp_all

lemma first_error_bytes:
  "first_error (map Bytes out) = (if out = [] then Inr None else Inl TypeError)"
  by (cases out) simp_all

lemma run_process_captured:
  assumes "proc e this_cmd (files w) = Some (rc, out, fs)"
  shows "run_process e this_cmd True xml_name w =
     (if out = [] then Inr (new_result\<lparr>output := Some []\<rparr>) else Inl TypeError,
      w\<lparr>logged := logged w @ [''cmd:\<newline>'' @ this_cmd @ ''\<newline>''],
        spawned := spawned w @ [this_cmd], files := fs\<rparr>)"
  using assms by (simp add: run_process_def Let_def first_error_bytes)

lemma run_process_invariant:
  assumes "run_process e this_cmd store_out xml_name w = (Inr r, w1)"
  shows "status r = Success \<longrightarrow> error_msg r = None"
  using assms
  by (auto simp: run_process_def Let_def new_result_def status_read_error_msg
      split: option.splits if_splits sum.splits)

lemma run_cmd_Inr:
  assumes "run_cmd e self this_cmd store_out xml_name raise_error frame w = (Inr r, w')"
  shows "\<exists>r1 w1. run_process e this_cmd store_out xml_name w = (Inr r1, w1)
           \<and> log_warnings e self xml_name frame r1 w1 = (Inr r, w')
           \<and> \<not> (status r = Error \<and> raise_error)"
  using assms
  by (auto simp: run_cmd_def split: prod.splits sum.splits if_splits)

lemma run_cmd_streamed:
  assumes "run_cmd e self this_cmd False xml_name raise_error frame w = (Inr r, w')"
    and "proc e this_cmd (files w) = Some (rc, out, fs)"
  shows "status r = (if rc > 0 then Error else Success) \<and> output r = None"
proof -
  from run_cmd_Inr [OF assms(1)] obtain r1 w1 where
    p: "run_process e this_cmd False xml_name w = (Inr r1, w1)" and
    l: "log_warnings e self xml_name frame r1 w1 = (Inr r, w')" by blast
  from run_process_streamed [OF p assms(2)] log_warnings_Inr [OF l] show ?thesis by simp
qed

lemma run_frames_Inr:
  assumes "run_frames e self fns code_arg frames raise_error kw w = (Inr r, w')"
  shows "status r = Success \<and> error_msg r = None"
  using assms
  by (auto simp: run_frames_def Let_def split: if_splits prod.splits sum.splits)

section \<open>Facts about the command builder\<close>


lemma has_key_dict_set: "has_key (dict_set d k v) k"
  by (induction d k v rule: dict_set.induct) (simp_all add: has_key_def)




lemma update_kwargs_config:
  "kw_config (update_kwargs self kw) = Some (case kw_config kw of None \<Rightarrow> config self | Some a \<Rightarrow> a)"
  by (simp add: update_kwargs_def vars_of_def or_attr_def split: option.split)

lemma update_kwargs_code: "\<exists>c. kw_code (update_kwargs self kw) = Some c"
  by (simp add: update_kwargs_def vars_of_def or_attr_def split: option.split)

lemma sex_params_generate:
  assumes "kw_code k = Some ''SExtractor''" "kw_params k = Some ps" "kw_config k = Some a"
    "kw_temp_path k = Some (Some t)" "cw (os_path_join t ''sex.param'')"
  shows "sex_params cw k w =
     (Inr (),
      w\<lparr>warned := (if has_key (heap w a) ''PARAMETERS_NAME''
                    then warned w @ [msg_multiple_params] else warned w),
        files := (files w)(os_path_join t ''sex.param'' \<mapsto> map (\<lambda>p. p @ ''\<newline>'') ps),
        heap := (heap w)(a := dict_set (heap w a) ''PARAMETERS_NAME''
                               (PStr (os_path_join t ''sex.param'')))\<rparr>)"
  using assms by (simp add: sex_params_def Let_def warn_def)

lemma heap_build_cmd: "heap (snd (build_cmd cw self fns kw w)) = heap (snd (sex_params cw (update_kwargs self kw) w))"
  by (simp add: build_cmd_def Let_def split: prod.splits sum.splits option.splits)


text \<open>A dictionary update seen through lookups, and the text of a flag in the command.\<close>

lemma map_of_dict_set_eq: "map_of (dict_set d k v) = (map_of d)(k \<mapsto> v)"
  by (induction d k v rule: dict_set.induct) (auto simp: fun_eq_iff)


lemma startswith_append: "startswith x sub \<Longrightarrow> startswith (x @ b) sub"
  by (induction x sub rule: startswith.induct) simp_all

lemma contains_Nil: "contains [] x"
  by (cases x) simp_all



lemma contains_append_right: "contains sub x \<Longrightarrow> contains sub (x @ b)"
proof (induction x)
  case Nil
  then show ?case by (simp add: contains_Nil)
next
  case (Cons c cs)
  then show ?case using startswith_append [of "c # cs" sub b] by auto
qed










section \<open>The claims\<close>

subsection \<open>Per-frame execution\<close>

text \<open>
  C1. The claim: the record returned by \<^verbatim>\<open>run_frames\<close> has status \<^verbatim>\<open>error\<close> as soon as
  the run of one frame was flagged as error. The code does not do this: with
  \<^verbatim>\<open>raise_error=False\<close> and a tool that exits with code 1 on the only frame, the run of
  that frame has status \<^verbatim>\<open>error\<close>, and the record of \<^verbatim>\<open>run_frames\<close>, built from the
  constant at line 628, has status \<^verbatim>\<open>success\<close>.
\<close>

theorem run_frames_reports_success_after_frame_error:
  "fst (run_cmd (fixed_env 1 [] None) (new_instance ''SWarp'') ''swarp img.fits[1]''
          False None False (Some ''1'') world0)
     = Inr \<lparr>status = Error, error_msg = None, output = None, warnings = None\<rparr>
   \<and> spawned (snd (run_frames (fixed_env 1 [] None) (new_instance ''SWarp'')
                     (Single ''img.fits'') None [1] False no_kwargs world0))
     = [''swarp img.fits[1]'']
   \<and> fst (run_frames (fixed_env 1 [] None) (new_instance ''SWarp'')
            (Single ''img.fits'') None [1] False no_kwargs world0)
     = Inr \<lparr>status = Success, error_msg = None, output = None, warnings = Some None\<rparr>"
  by (simp add: example_defs build_defs run_defs)

subsection \<open>The report that does not parse\<close>

text \<open>
  C2. The claim: when the report path is known and the XML file does not parse, the
  record is still returned, without its \<^verbatim>\<open>warnings\<close> field. The code has no handler
  around the parser: the exception leaves \<^verbatim>\<open>_run_cmd\<close> and no record is returned. Here
  the tool ran without error and the report exists, yet the call ends with the
  parser's exception.
\<close>

theorem run_cmd_unparsable_report_counterexample:
  "fst (run_cmd (fixed_env 0 [] None) (new_instance ''SWarp'') ''swarp img.fits'' True
          (Some ''log.xml'') False None (world_file ''log.xml'' [''<VOTABLE'']))
     = Inl VOTableError"
  by (simp add: example_defs build_defs run_defs)

text \<open>
  C2, as the code has it: whenever a report path is known, a record is returned only
  if the report (of the frame, and after the rewrite for SExtractor) was read and
  parsed and holds a table of warnings, and the record then carries that table in its
  \<^verbatim>\<open>warnings\<close> field; so a report that does not parse ends the call with an exception.
\<close>

theorem run_cmd_needs_parsed_report:
  assumes "run_cmd e self this_cmd store_out (Some x) raise_error frame w = (Inr r, w')"
  shows "\<exists>content vt t. files w' (frame_xml frame x) = Some content
           \<and> parse_masked e content = Some vt \<and> vo_warnings vt = Some t
           \<and> warnings r = Some (Some ((filled t)\<lparr>meta :=
                 dict_set (meta (filled t)) ''filename'' (frame_xml frame x)\<rparr>))"
proof -
  from run_cmd_Inr [OF assms] obtain r1 w1 where
    "log_warnings e self (Some x) frame r1 w1 = (Inr r, w')" by blast
  then show ?thesis by (rule log_warnings_xml)
qed

theorem run_cmd_needs_parsed_report_witness:
  "\<exists>content vt t.
     files (snd (run_cmd (fixed_env 0 [] (Some empty_report)) (new_instance ''SWarp'')
                   ''swarp img.fits'' True (Some ''log.xml'') False None
                   (world_file ''log.xml'' [''<VOTABLE/>''])))
       (frame_xml None ''log.xml'') = Some content
     \<and> parse_masked (fixed_env 0 [] (Some empty_report)) content = Some vt
     \<and> vo_warnings vt = Some t
     \<and> warnings \<lparr>status = Success, error_msg = None, output = Some [],
                  warnings = Some (Some \<lparr>rows = [], meta = [(''filename'', ''log.xml'')]\<rparr>)\<rparr>
       = Some (Some ((filled t)\<lparr>meta := dict_set (meta (filled t)) ''filename''
                                            (frame_xml None ''log.xml'')\<rparr>))"
proof -
  have h: "run_cmd (fixed_env 0 [] (Some empty_report)) (new_instance ''SWarp'')
             ''swarp img.fits'' True (Some ''log.xml'') False None
             (world_file ''log.xml'' [''<VOTABLE/>''])
           = (Inr \<lparr>status = Success, error_msg = None, output = Some [],
                   warnings = Some (Some \<lparr>rows = [], meta = [(''filename'', ''log.xml'')]\<rparr>)\<rparr>,
              snd (run_cmd (fixed_env 0 [] (Some empty_report)) (new_instance ''SWarp'')
                   ''swarp img.fits'' True (Some ''log.xml'') False None
                   (world_file ''log.xml'' [''<VOTABLE/>''])))"
    by (simp add: example_defs build_defs run_defs)
  show ?thesis by (rule run_cmd_needs_parsed_report [OF h])
qed

subsection \<open>The parameter file without a temp directory\<close>

text \<open>
  C3. The claim: a build for SExtractor with an inline \<^verbatim>\<open>params\<close> list and no temp
  directory fails with the module's own exception. The guard at line 341 tests whether
  the key \<^verbatim>\<open>temp_path\<close> is absent, and \<^verbatim>\<open>__init__\<close> always sets the attribute, so
  after lines 331-333 the key is always there: with the default \<^verbatim>\<open>temp_path=None\<close> the
  build reaches \<^verbatim>\<open>os.path.join(None, 'sex.param')\<close>, which raises an exception of Python
  (\<^verbatim>\<open>TypeError\<close>) and not \<^verbatim>\<open>AstromaticError\<close>.
\<close>

theorem build_cmd_params_without_temp_path:
  "fst (build_cmd (\<lambda>p. True) (new_instance ''SExtractor'') (Single ''img.fits'')
          (no_kwargs\<lparr>kw_params := Some [''X'']\<rparr>) world0)
     = Inl TypeError
   \<and> kw_temp_path (update_kwargs self kw) \<noteq> None"
  by (simp add: example_defs build_defs split: option.split)

subsection \<open>Streamed mode\<close>

text \<open>
  C4. The claim: in streamed mode every nonzero exit code gives status \<^verbatim>\<open>error\<close>. The
  test at line 433 is \<^verbatim>\<open>status>0\<close>, and \<^verbatim>\<open>subprocess.call\<close> gives a negative number
  when the child was ended by a signal: for the return code \<open>-11\<close> the record has status
  \<^verbatim>\<open>success\<close>, even with \<^verbatim>\<open>raise_error=True\<close>. (For the return codes from zero upwards
  the code does what the claim says: \<open>run_cmd_streamed\<close>.)
\<close>

theorem run_cmd_streamed_negative_return_code:
  "fst (run_cmd (fixed_env (- 11) [] None) (new_instance ''SWarp'') ''swarp img.fits''
          False None True None world0)
     = Inr \<lparr>status = Success, error_msg = None, output = None, warnings = None\<rparr>"
  by (simp add: example_defs build_defs run_defs)

subsection \<open>Captured mode\<close>

text \<open>
  C5. The claim: in captured mode the status is \<^verbatim>\<open>error\<close> exactly when some output
  line contains \<^verbatim>\<open>error\<close> in any letter case, the first such line is \<^verbatim>\<open>error_msg\<close>,
  and the output lines are always stored. The code does not do this: the lines read
  from the pipe are \<^verbatim>\<open>bytes\<close>, and the test of line 427 looks for a \<^verbatim>\<open>str\<close> in them,
  so a run whose output is the line \<^verbatim>\<open>Error: bad pixel\<close> ends with \<^verbatim>\<open>TypeError\<close> and
  returns no record. The loop itself is right: on the same line as \<^verbatim>\<open>str\<close> it finds
  the error.
\<close>

theorem captured_mode_raises_on_output:
  "fst (run_cmd (fixed_env 0 [''Error: bad pixel\<newline>''] None) (new_instance ''SWarp'')
          ''swarp img.fits'' True None False None world0)
     = Inl TypeError
   \<and> first_error [Str ''Error: bad pixel\<newline>''] = Inr (Some (Str ''Error: bad pixel\<newline>''))"
  by (simp add: example_defs build_defs run_defs)

subsection \<open>A successful record has no error message\<close>

text \<open>
  C8. A record with status \<^verbatim>\<open>success\<close> has no \<^verbatim>\<open>error_msg\<close>, whether \<^verbatim>\<open>_run_cmd\<close>
  returns it (captured or streamed) or \<^verbatim>\<open>run_frames\<close> does; and a record with status
  \<^verbatim>\<open>error\<close> may lack \<^verbatim>\<open>error_msg\<close>: a streamed run with a positive return code, no
  report and \<^verbatim>\<open>raise_error\<close> off returns one.
\<close>

theorem success_without_error_msg:
  "(run_cmd e self this_cmd store_out xml_name raise_error frame w = (Inr r1, w1)
      \<longrightarrow> status r1 = Success \<longrightarrow> error_msg r1 = None)
   \<and> (run_frames e self fns code_arg frames raise_error kw w = (Inr r2, w2)
      \<longrightarrow> status r2 = Success \<and> error_msg r2 = None)
   \<and> (proc e this_cmd (files w) = Some (rc, out, fs) \<longrightarrow> 0 < rc
      \<longrightarrow> (\<exists>r3 w3. run_cmd e self this_cmd False None False frame w = (Inr r3, w3)
             \<and> status r3 = Error \<and> error_msg r3 = None))"
proof -
  have a: "error_msg r1 = None"
    if h: "run_cmd e self this_cmd store_out xml_name raise_error frame w = (Inr r1, w1)"
      and s: "status r1 = Success"
  proof -
    from run_cmd_Inr [OF h] obtain r0 w0 where
      p: "run_process e this_cmd store_out xml_name w = (Inr r0, w0)" and
      l: "log_warnings e self xml_name frame r0 w0 = (Inr r1, w1)" by blast
    from log_warnings_Inr [OF l] run_process_invariant [OF p] s show ?thesis by simp
  qed
  have b: "status r2 = Success \<and> error_msg r2 = None"
    if "run_frames e self fns code_arg frames raise_error kw w = (Inr r2, w2)"
    using that by (rule run_frames_Inr)
  have c: "\<exists>r3 w3. run_cmd e self this_cmd False None False frame w = (Inr r3, w3)
             \<and> status r3 = Error \<and> error_msg r3 = None"
    if "proc e this_cmd (files w) = Some (rc, out, fs)" and "0 < rc"
    using that
    by (simp add: run_cmd_def run_process_def Let_def new_result_def log_warnings_None)
  from a b c show ?thesis by blast
qed

theorem success_without_error_msg_witness:
  "error_msg (new_result\<lparr>output := Some []\<rparr>) = None
   \<and> status \<lparr>status = Success, error_msg = None, output = None, warnings = Some None\<rparr> = Success
   \<and> error_msg \<lparr>status = Success, error_msg = None, output = None, warnings = Some None\<rparr> = None
   \<and> (\<exists>r3 w3. run_cmd (fixed_env 1 [] None) (new_instance ''SWarp'') ''swarp img.fits[1]''
                 False None False (Some ''1'') world0 = (Inr r3, w3)
          \<and> status r3 = Error \<and> error_msg r3 = None)"
proof -
  have h1: "run_cmd (fixed_env 1 [] None) (new_instance ''SWarp'') ''swarp img.fits[1]''
              True None False (Some ''1'') world0
            = (Inr (new_result\<lparr>output := Some []\<rparr>),
               snd (run_cmd (fixed_env 1 [] None) (new_instance ''SWarp'')
                      ''swarp img.fits[1]'' True None False (Some ''1'') world0))"
    by (simp add: example_defs build_defs run_defs)
  have s1: "status (new_result\<lparr>output := Some []\<rparr>) = Success"
    by (simp add: new_result_def)
  have h2: "run_frames (fixed_env 1 [] None) (new_instance ''SWarp'') (Single ''img.fits'')
              None [1] False no_kwargs world0
            = (Inr \<lparr>status = Success, error_msg = None, output = None, warnings = Some None\<rparr>,
               snd (run_frames (fixed_env 1 [] None) (new_instance ''SWarp'')
                      (Single ''img.fits'') None [1] False no_kwargs world0))"
    by (simp add: example_defs build_defs run_defs)
  have h3: "proc (fixed_env 1 [] None) ''swarp img.fits[1]'' (files world0)
            = Some (1, [], files world0)"
    by (simp add: fixed_env_def)
  from success_without_error_msg [where e = "fixed_env 1 [] None"
      and self = "new_instance ''SWarp''" and this_cmd = "''swarp img.fits[1]''"
      and store_out = True and xml_name = None and raise_error = False and frame = "Some ''1''"
      and w = world0 and fns = "Single ''img.fits''" and code_arg = None and frames = "[1]"
      and kw = no_kwargs and rc = 1 and out = "[]" and fs = "files world0"
      and ?r1.0 = "new_result\<lparr>output := Some []\<rparr>"
      and ?r2.0 = "\<lparr>status = Success, error_msg = None, output = None, warnings = Some None\<rparr>"
      and ?w1.0 = "snd (run_cmd (fixed_env 1 [] None) (new_instance ''SWarp'')
                      ''swarp img.fits[1]'' True None False (Some ''1'') world0)"
      and ?w2.0 = "snd (run_frames (fixed_env 1 [] None) (new_instance ''SWarp'')
                      (Single ''img.fits'') None [1] False no_kwargs world0)"]
    h1 s1 h2 h3
  show ?thesis by simp
qed

subsection \<open>The process that \<^verbatim>\<open>get_version\<close> spawns\<close>

text \<open>
  C10. The claim: for every \<^verbatim>\<open>cmd\<close> and every tool identity \<^verbatim>\<open>get_version\<close> spawns
  \<^verbatim>\<open>'sex'\<close>. The guard at lines 654-656 raises before anything is spawned when no
  \<^verbatim>\<open>cmd\<close> is given and the code of the instance is not in \<^verbatim>\<open>codes\<close>.
\<close>

theorem get_version_unknown_code_counterexample:
  "get_version (fixed_env 0 [] None) (new_instance ''Foo'') None world0
     = (Inl (AstromaticError msg_need_code_version), world0)
   \<and> spawned world0 = []"
  by (simp add: example_defs build_defs get_version_def version_cmd_def)

text \<open>
  C10, as the code has it: whenever the method assembles its version query, that is
  for a \<^verbatim>\<open>cmd\<close> that is not empty, or for no \<^verbatim>\<open>cmd\<close> and a code listed in \<^verbatim>\<open>codes\<close>, it
  spawns exactly one process, the fixed command \<^verbatim>\<open>'sex'\<close>, which is never the query it
  assembled; otherwise it raises and spawns nothing.
\<close>

theorem get_version_spawns_sex:
  "(version_cmd self cmd_arg = Inr c
      \<longrightarrow> spawned (snd (get_version e self cmd_arg w)) = spawned w @ [''sex''] \<and> c \<noteq> ''sex'')
   \<and> (version_cmd self cmd_arg = Inl err \<longrightarrow> get_version e self cmd_arg w = (Inl err, w))
   \<and> ((\<exists>c'. version_cmd self cmd_arg = Inr c')
      \<longleftrightarrow> (case cmd_arg of None \<Rightarrow> code self \<in> fst ` set codes | Some d \<Rightarrow> d \<noteq> []))"
proof -
  have a: "spawned (snd (get_version e self cmd_arg w)) = spawned w @ [''sex'']"
    if "version_cmd self cmd_arg = Inr c"
    using that by (simp add: get_version_def Let_def split: option.splits prod.splits)
  have b: "c \<noteq> ''sex''" if h: "version_cmd self cmd_arg = Inr c"
  proof
    assume "c = ''sex''"
    with h have "version_cmd self cmd_arg = Inr ''sex''" by simp
    then obtain d where "(if last d \<noteq> CHR '' '' then d @ '' '' else d) @ ''-v'' = ''sex''"
      by (auto simp: version_cmd_def split: sum.splits if_splits option.splits)
    then have "last ((if last d \<noteq> CHR '' '' then d @ '' '' else d) @ ''-v'') = last ''sex''"
      by (rule arg_cong)
    then show False by simp
  qed
  have c: "get_version e self cmd_arg w = (Inl err, w)" if "version_cmd self cmd_arg = Inl err"
    using that by (simp add: get_version_def)
  have d: "(\<exists>c'. version_cmd self cmd_arg = Inr c')
      \<longleftrightarrow> (case cmd_arg of None \<Rightarrow> code self \<in> fst ` set codes | Some d \<Rightarrow> d \<noteq> [])"
    by (auto simp: version_cmd_def codes_def split: option.splits if_splits)
  from a b c d show ?thesis by blast
qed

theorem get_version_spawns_sex_witness:
  "spawned (snd (get_version (fixed_env 0 [] None) (new_instance ''SWarp'')
                   (Some ''/opt/bin/swarp'') world0)) = spawned world0 @ [''sex'']
   \<and> ''/opt/bin/swarp -v'' \<noteq> ''sex''
   \<and> get_version (fixed_env 0 [] None) (new_instance ''SWarp'') (Some []) world0
       = (Inl IndexError, world0)"
proof -
  have h: "version_cmd (new_instance ''SWarp'') (Some ''/opt/bin/swarp'') = Inr ''/opt/bin/swarp -v''"
    by (simp add: version_cmd_def)
  have g: "version_cmd (new_instance ''SWarp'') (Some []) = Inl IndexError"
    by (simp add: version_cmd_def)
  from get_version_spawns_sex [where self = "new_instance ''SWarp''"
      and cmd_arg = "Some ''/opt/bin/swarp''" and c = "''/opt/bin/swarp -v''"
      and e = "fixed_env 0 [] None" and w = world0] h
    get_version_spawns_sex [where self = "new_instance ''SWarp''"
      and cmd_arg = "Some []" and err = IndexError
      and e = "fixed_env 0 [] None" and w = world0] g
  show ?thesis by blast
qed

subsection \<open>The parameter list of SExtractor\<close>




subsection \<open>The configuration is changed in place\<close>

text \<open>
  C9. The claim: every build for SExtractor with an inline \<^verbatim>\<open>params\<close> list inserts
  the generated \<^verbatim>\<open>PARAMETERS_NAME\<close> into the dictionary it was given, which is the one
  the instance holds, so that every later build on the instance sees the entry. Two
  builds show otherwise: with the default \<^verbatim>\<open>temp_path\<close> the build ends before it
  inserts anything; and with a \<^verbatim>\<open>config\<close> passed to the call, only that dictionary
  gets the entry, the one of the instance stays empty, and a later build on the
  instance fails for want of a parameter file.
\<close>

theorem build_cmd_config_untouched_counterexample:
  "heap (snd (build_cmd (\<lambda>p. True) (new_instance ''SExtractor'') (Single ''img.fits'')
                (no_kwargs\<lparr>kw_params := Some [''X'']\<rparr>) world0)) = heap world0
   \<and> heap (snd (build_cmd (\<lambda>p. True) sextractor_tmp (Single ''img.fits'')
                (no_kwargs\<lparr>kw_params := Some [''X''], kw_config := Some 1\<rparr>) world0)) 1
     = [(''PARAMETERS_NAME'', PStr ''/tmp/sex.param'')]
   \<and> heap (snd (build_cmd (\<lambda>p. True) sextractor_tmp (Single ''img.fits'')
                (no_kwargs\<lparr>kw_params := Some [''X''], kw_config := Some 1\<rparr>) world0))
          (config sextractor_tmp)
     = []
   \<and> fst (build_cmd (\<lambda>p. True) sextractor_tmp (Single ''img.fits'') no_kwargs
            (snd (build_cmd (\<lambda>p. True) sextractor_tmp (Single ''img.fits'')
                    (no_kwargs\<lparr>kw_params := Some [''X''], kw_config := Some 1\<rparr>) world0)))
     = Inl (AstromaticError msg_need_params)"
  by (simp add: example_defs build_defs os_path_join_def)

text \<open>
  C9, as the code has it. A build for SExtractor that generates the parameter file
  (inline \<^verbatim>\<open>params\<close>, a temp directory, a file that can be written) stores the
  generated \<^verbatim>\<open>PARAMETERS_NAME\<close> in the dictionary it uses, which is the \<^verbatim>\<open>config\<close>
  passed to the call or else the one the instance holds, and changes nothing else in
  the heap. When the call passed no \<^verbatim>\<open>config\<close>, every holder of the instance's
  reference sees the entry; two instances built without a \<^verbatim>\<open>config\<close> hold the same
  reference, the default of the constructor; and every later build on the instance
  that passes no \<^verbatim>\<open>config\<close> reads the dictionary with the entry, and passes the check
  of lines 351-354 when it has no \<^verbatim>\<open>params\<close>.
\<close>

theorem build_cmd_mutates_shared_config:
  assumes "kw_code (update_kwargs self kw) = Some ''SExtractor''"
    and "kw_params (update_kwargs self kw) = Some ps"
    and "kw_temp_path (update_kwargs self kw) = Some (Some t)"
    and "cw (os_path_join t ''sex.param'')"
    and "kw_config (update_kwargs self kw) = Some a"
  shows "heap (snd (build_cmd cw self fns kw w))
           = (heap w)(a := dict_set (heap w a) ''PARAMETERS_NAME''
                              (PStr (os_path_join t ''sex.param'')))
       \<and> map_of (heap (snd (build_cmd cw self fns kw w)) a)
           = (map_of (heap w a))(''PARAMETERS_NAME'' \<mapsto> PStr (os_path_join t ''sex.param''))
       \<and> (\<forall>b. b \<noteq> a \<longrightarrow> heap (snd (build_cmd cw self fns kw w)) b = heap w b)
       \<and> a = (case kw_config kw of None \<Rightarrow> config self | Some b \<Rightarrow> b)
       \<and> (kw_config kw = None \<and> config other = config self
            \<longrightarrow> map_of (heap (snd (build_cmd cw self fns kw w)) (config other)) ''PARAMETERS_NAME''
                  = Some (PStr (os_path_join t ''sex.param'')))
       \<and> config (fst (init c1 tp1 None cf1 so1 ec1 ep1 wa))
           = config (fst (init c2 tp2 None cf2 so2 ec2 ep2 wb))
       \<and> (kw_config kw = None \<and> kw_config kw2 = None
            \<longrightarrow> kw_config (update_kwargs self kw2) = Some a
              \<and> map_of (heap (snd (build_cmd cw self fns kw w)) a) ''PARAMETERS_NAME''
                  = Some (PStr (os_path_join t ''sex.param''))
              \<and> (kw_params (update_kwargs self kw2) = None
                   \<longrightarrow> sex_params cw (update_kwargs self kw2) (snd (build_cmd cw self fns kw w))
                         = (Inr (), snd (build_cmd cw self fns kw w))))"
proof -
  let ?p = "os_path_join t ''sex.param''"
  let ?w' = "snd (build_cmd cw self fns kw w)"
  have hp: "heap ?w' = (heap w)(a := dict_set (heap w a) ''PARAMETERS_NAME'' (PStr ?p))"
    using assms by (simp add: heap_build_cmd sex_params_generate)
  then have me: "map_of (heap ?w' a) = (map_of (heap w a))(''PARAMETERS_NAME'' \<mapsto> PStr ?p)"
    by (simp add: map_of_dict_set_eq)
  then have m: "map_of (heap ?w' a) ''PARAMETERS_NAME'' = Some (PStr ?p)"
    by simp
  have fr: "\<forall>b. b \<noteq> a \<longrightarrow> heap ?w' b = heap w b"
    by (simp add: hp)
  have al: "a = (case kw_config kw of None \<Rightarrow> config self | Some b \<Rightarrow> b)"
    using assms(5) by (simp add: update_kwargs_config)
  have ot: "map_of (heap ?w' (config other)) ''PARAMETERS_NAME'' = Some (PStr ?p)"
    if "kw_config kw = None \<and> config other = config self"
    using that al m by simp
  have df: "config (fst (init c1 tp1 None cf1 so1 ec1 ep1 wa))
           = config (fst (init c2 tp2 None cf2 so2 ec2 ep2 wb))"
    by (simp add: init_def)
  have lt: "kw_config (update_kwargs self kw2) = Some a
              \<and> map_of (heap ?w' a) ''PARAMETERS_NAME'' = Some (PStr ?p)
              \<and> (kw_params (update_kwargs self kw2) = None
                   \<longrightarrow> sex_params cw (update_kwargs self kw2) ?w' = (Inr (), ?w'))"
    if h: "kw_config kw = None \<and> kw_config kw2 = None"
  proof -
    from h have c2: "kw_config (update_kwargs self kw2) = Some a"
      using al by (simp add: update_kwargs_config)
    have hk: "has_key (heap ?w' a) ''PARAMETERS_NAME''"
      by (simp add: hp has_key_dict_set)
    obtain c where "kw_code (update_kwargs self kw2) = Some c"
      using update_kwargs_code by blast
    with c2 hk m show ?thesis by (simp add: sex_params_def)
  qed
  from hp me fr al ot df lt show ?thesis by blast
qed

theorem build_cmd_mutates_shared_config_witness:
  "heap (snd (build_cmd (\<lambda>p. True) sextractor_tmp (Single ''img.fits'')
                (no_kwargs\<lparr>kw_params := Some [''X'']\<rparr>) world0)) 0
     = [(''PARAMETERS_NAME'', PStr ''/tmp/sex.param'')]
   \<and> map_of (heap (snd (build_cmd (\<lambda>p. True) sextractor_tmp (Single ''img.fits'')
                (no_kwargs\<lparr>kw_params := Some [''X'']\<rparr>) world0))
               (config (new_instance ''SWarp''))) ''PARAMETERS_NAME''
     = Some (PStr ''/tmp/sex.param'')
   \<and> sex_params (\<lambda>p. True) (update_kwargs sextractor_tmp no_kwargs)
        (snd (build_cmd (\<lambda>p. True) sextractor_tmp (Single ''img.fits'')
                (no_kwargs\<lparr>kw_params := Some [''X'']\<rparr>) world0))
     = (Inr (), snd (build_cmd (\<lambda>p. True) sextractor_tmp (Single ''img.fits'')
                (no_kwargs\<lparr>kw_params := Some [''X'']\<rparr>) world0))"
proof -
  have h1: "kw_code (update_kwargs sextractor_tmp (no_kwargs\<lparr>kw_params := Some [''X'']\<rparr>))
              = Some ''SExtractor''"
    and h2: "kw_params (update_kwargs sextractor_tmp (no_kwargs\<lparr>kw_params := Some [''X'']\<rparr>))
              = Some [''X'']"
    and h3: "kw_temp_path (update_kwargs sextractor_tmp (no_kwargs\<lparr>kw_params := Some [''X'']\<rparr>))
              = Some (Some ''/tmp'')"
    and h4: "(\<lambda>p. True) (os_path_join ''/tmp'' ''sex.param'')"
    and h5: "kw_config (update_kwargs sextractor_tmp (no_kwargs\<lparr>kw_params := Some [''X'']\<rparr>))
              = Some 0"
    by (simp_all add: example_defs build_defs)
  have g: "kw_config (no_kwargs\<lparr>kw_params := Some [''X'']\<rparr>) = None"
    "config (new_instance ''SWarp'') = config sextractor_tmp"
    "kw_config no_kwargs = None"
    "kw_params (update_kwargs sextractor_tmp no_kwargs) = None"
    "os_path_join ''/tmp'' ''sex.param'' = ''/tmp/sex.param''"
    "heap world0 0 = []"
    by (simp_all add: example_defs build_defs os_path_join_def)
  from build_cmd_mutates_shared_config [OF h1 h2 h3 h4 h5, where fns = "Single ''img.fits''"
      and w = world0 and other = "new_instance ''SWarp''" and ?kw2.0 = no_kwargs] g
  show ?thesis by simp
qed

subsection \<open>Reading the flags back\<close>




end
